theory Spec2Isabelle
  imports Complex_Main "HOL-Library.AList"
begin

section \<open>Item records (\<^verbatim>\<open>main_scraper.py\<close>, class \<^verbatim>\<open>Game\<close>)\<close>

text \<open>
  The dataclass \<^verbatim>\<open>Game\<close> is a plain (not frozen) dataclass of twelve fields.  Strings are
  character lists; \<^verbatim>\<open>play_count\<close> is an unbounded Python integer; \<^verbatim>\<open>rating\<close> is a float
  that no operation of the orchestrator inspects, it is carried as a real number.
\<close>

record Game =
  name :: string
  url :: string
  source :: string
  embed_url :: string
  iframe_code :: string
  image_url :: string
  description :: string
  category :: string
  tags :: "string list"
  play_count :: int
  rating :: real
  date_scraped :: string

text \<open>
  \<^verbatim>\<open>Game(name=..., url=..., source=...)\<close> with every other field at its default, followed by
  \<^verbatim>\<open>__post_init__\<close>: \<^verbatim>\<open>tags\<close> (default \<^verbatim>\<open>None\<close>) becomes the empty list and the empty
  \<^verbatim>\<open>date_scraped\<close> becomes \<^verbatim>\<open>datetime.now().isoformat()\<close>, the clock reading \<open>now\<close>.
\<close>

definition post_init :: "string \<Rightarrow> string list option \<Rightarrow> string \<Rightarrow> string list \<times> string" where
  "post_init now tgs ds =
     ((case tgs of None \<Rightarrow> [] | Some ts \<Rightarrow> ts), (if ds = [] then now else ds))"

definition new_Game :: "string \<Rightarrow> string \<Rightarrow> string \<Rightarrow> string \<Rightarrow> Game" where
  "new_Game now n u s =
     (let (ts, ds) = post_init now None [] in
      \<lparr>name = n, url = u, source = s, embed_url = [], iframe_code = [], image_url = [],
       description = [], category = [], tags = ts, play_count = 0, rating = 0,
       date_scraped = ds\<rparr>)"

section \<open>String helpers\<close>

text \<open>
  A character of the model is a code point below 256, the value of \<^verbatim>\<open>ord\<close>.  On these,
  \<^verbatim>\<open>str.lower()\<close> moves \<^verbatim>\<open>A\<close>..\<^verbatim>\<open>Z\<close> (65..90) and the accented capitals 192..214 and
  216..222 up by 32; the multiplication sign (215), the sharp s (223) and every other
  character are kept.
\<close>

definition lower_char :: "char \<Rightarrow> char" where
  "lower_char c =
     (let n = (of_char c :: nat)
      in if (65 \<le> n \<and> n \<le> 90) \<or> (192 \<le> n \<and> n \<le> 214) \<or> (216 \<le> n \<and> n \<le> 222)
         then char_of (n + 32) else c)"

definition lower :: "string \<Rightarrow> string" where
  "lower s = map lower_char s"

section \<open>The orchestrator state (class \<^verbatim>\<open>MainGameScraper\<close>)\<close>

text \<open>
  Python exceptions, the subclasses of \<^verbatim>\<open>Exception\<close> that the modelled calls raise.
  Every handler of the source is \<^verbatim>\<open>except Exception\<close>; \<^verbatim>\<open>KeyboardInterrupt\<close> and
  \<^verbatim>\<open>SystemExit\<close> are not subclasses of it and are not part of a job's or a fetch's
  behaviour here.
\<close>

datatype exn =
    ZeroDivisionError
  | IndexError
  | NotImplementedError
  | TimeoutError
  | ConnectionError
  | ReadTimeout
  | SSLError
  | HTTPError nat
  | WebDriverException
  | TimeoutException
  | OSError
  | OtherException string

text \<open>
  One registered scraper as the orchestrator meets it.  \<^verbatim>\<open>scraper.scrape()\<close> is the external
  collaborator: what it does on the network is not the orchestrator's business, so a
  scraper carries the two things the orchestrator can observe: \<open>games\<close>, the accumulator
  \<^verbatim>\<open>self.games\<close> holding the items the scraper had appended when the orchestrator stopped
  waiting for it, and \<open>future_result\<close>, what \<^verbatim>\<open>future.result(timeout=600)\<close> does:
  it returns the list that \<^verbatim>\<open>scrape()\<close> returned (\<open>Inr\<close>), or it raises (\<open>Inl\<close>) the
  exception of \<^verbatim>\<open>scrape()\<close>, or \<open>TimeoutError\<close> when the ten minutes ran out.
\<close>

record WebsiteScraper =
  base_url :: string
  scraper_name :: string
  games :: "Game list"
  future_result :: "exn + Game list"

text \<open>
  \<^verbatim>\<open>scraping_stats\<close> is a Python dict from scraper name to an integer count.  A dict keeps
  its keys in insertion order and an assignment to a present key keeps the key's place:
  an association list under \<^const>\<open>AList.update\<close>.
\<close>

record MainGameScraper =
  scrapers :: "WebsiteScraper list"
  all_games :: "Game list"
  scraping_stats :: "(string \<times> nat) list"

definition MainGameScraper_init :: "WebsiteScraper list \<Rightarrow> MainGameScraper" where
  "MainGameScraper_init registry = \<lparr>scrapers = registry, all_games = [], scraping_stats = []\<rparr>"

subsection \<open>\<^verbatim>\<open>run_scrapers_parallel\<close>\<close>

text \<open>
  The second loop of \<^verbatim>\<open>run_scrapers_parallel\<close>, \<^verbatim>\<open>for scraper, future in futures\<close>: the
  futures are visited in registration order whatever order the workers finish in.  A
  result extends \<^verbatim>\<open>all_games\<close> and records its length; the \<^verbatim>\<open>except Exception\<close> branch
  records \<open>0\<close> and touches nothing else.
\<close>

fun collect_futures :: "WebsiteScraper list \<Rightarrow> MainGameScraper \<Rightarrow> MainGameScraper" where
  "collect_futures [] self = self"
| "collect_futures (scraper # futures) self =
     collect_futures futures
       (case future_result scraper of
          Inr gs \<Rightarrow>
            self\<lparr>all_games := all_games self @ gs,
                 scraping_stats :=
                   AList.update (scraper_name scraper) (length gs) (scraping_stats self)\<rparr>
        | Inl e \<Rightarrow>
            self\<lparr>scraping_stats :=
                   AList.update (scraper_name scraper) 0 (scraping_stats self)\<rparr>)"

definition run_scrapers_parallel :: "MainGameScraper \<Rightarrow> MainGameScraper" where
  "run_scrapers_parallel self = collect_futures (scrapers self) self"

subsection \<open>\<^verbatim>\<open>deduplicate_games\<close>\<close>

text \<open>The identifier \<^verbatim>\<open>f"{game.name.lower()}_{game.url}"\<close>.\<close>

definition game_id :: "Game \<Rightarrow> string" where
  "game_id game = lower (name game) @ ''_'' @ url game"

text \<open>The \<^verbatim>\<open>for game in self.all_games\<close> loop over the accumulators \<^verbatim>\<open>seen\<close> and
  \<^verbatim>\<open>unique_games\<close>.\<close>

fun dedupe_loop :: "Game list \<Rightarrow> string set \<Rightarrow> Game list \<Rightarrow> Game list" where
  "dedupe_loop [] seen unique_games = unique_games"
| "dedupe_loop (game # rest) seen unique_games =
     (if game_id game \<notin> seen
      then dedupe_loop rest (insert (game_id game) seen) (unique_games @ [game])
      else dedupe_loop rest seen unique_games)"

definition deduplicate_games :: "MainGameScraper \<Rightarrow> MainGameScraper" where
  "deduplicate_games self = self\<lparr>all_games := dedupe_loop (all_games self) {} []\<rparr>"

subsection \<open>\<^verbatim>\<open>save_results\<close>\<close>

text \<open>
  The JSON document and the summary CSV that \<^verbatim>\<open>save_results\<close> writes.  \<^verbatim>\<open>asdict(game)\<close>
  copies every field, so the \<^verbatim>\<open>games\<close> array is the list of records.  The two clock
  readings are arguments; \<open>can_write\<close> says whether \<^verbatim>\<open>open(filename, 'w')\<close> succeeds.
\<close>

record metadata =
  total_games :: nat
  scraped_at :: string
  sources :: "(string \<times> nat) list"

record results_json =
  metadata :: metadata
  games_array :: "Game list"

record csv_row =
  csv_name :: string
  csv_url :: string
  csv_source :: string
  has_embed :: bool

record saved_files =
  filename :: string
  json_document :: results_json
  csv_rows :: "csv_row list"

definition save_results ::
    "bool \<Rightarrow> string \<Rightarrow> string \<Rightarrow> MainGameScraper \<Rightarrow> exn + saved_files" where
  "save_results can_write timestamp now self =
     (let games_dict = all_games self in
      if \<not> can_write then Inl OSError
      else Inr \<lparr>filename = ''game_scraper/output/games_'' @ timestamp @ ''.json'',
                json_document =
                  \<lparr>metadata = \<lparr>total_games = length games_dict, scraped_at = now,
                                sources = scraping_stats self\<rparr>,
                   games_array = games_dict\<rparr>,
                csv_rows =
                  map (\<lambda>game. \<lparr>csv_name = name game, csv_url = url game,
                                csv_source = source game,
                                has_embed = (iframe_code game \<noteq> [])\<rparr>) games_dict\<rparr>)"

subsection \<open>\<^verbatim>\<open>print_stats\<close>\<close>

text \<open>
  The lines \<^verbatim>\<open>print_stats\<close> logs, in order, as structured values.  The percentage is the
  true division \<^verbatim>\<open>games_with_embed/total_games*100\<close>, which raises
  \<^verbatim>\<open>ZeroDivisionError\<close> on a zero divisor; its one-decimal formatting is not modelled.
\<close>

datatype log_line =
    Rule
  | Heading
  | TotalGames nat
  | WithEmbed nat real
  | BySource
  | SourceCount string nat
  | SampleHeading
  | Sample nat string string

definition true_div :: "nat \<Rightarrow> nat \<Rightarrow> exn + real" where
  "true_div a b = (if b = 0 then Inl ZeroDivisionError else Inr (real a / real b))"

definition print_stats :: "MainGameScraper \<Rightarrow> exn + log_line list" where
  "print_stats self =
     (let total = length (all_games self);
          games_with_embed = length (filter (\<lambda>g. iframe_code g \<noteq> []) (all_games self))
      in case true_div games_with_embed total of
           Inl e \<Rightarrow> Inl e
         | Inr q \<Rightarrow>
             Inr ([Rule, Heading, Rule, TotalGames total, WithEmbed games_with_embed (q * 100),
                   BySource]
                  @ map (\<lambda>(src, count). SourceCount src count) (scraping_stats self)
                  @ [SampleHeading]
                  @ map (\<lambda>(i, game). Sample (Suc i) (name game) (source game))
                        (enumerate 0 (take 10 (all_games self)))
                  @ [Rule]))"

section \<open>Identity pool (class \<^verbatim>\<open>ProxyManager\<close>)\<close>

record ProxyManager =
  proxies :: "string list"
  current_proxy_idx :: nat

definition load_proxies :: "string list" where
  "load_proxies =
     [''http://45.77.56.114:3128'', ''http://138.197.157.44:8080'',
      ''http://165.227.103.244:8080'', ''http://159.65.69.186:9300'',
      ''socks5://127.0.0.1:9050'', ''socks5h://127.0.0.1:9050'']"

definition ProxyManager_init :: ProxyManager where
  "ProxyManager_init = \<lparr>proxies = load_proxies, current_proxy_idx = 0\<rparr>"

text \<open>
  \<^verbatim>\<open>random.choice(seq)\<close> raises \<^verbatim>\<open>IndexError\<close> on an empty sequence and otherwise returns
  the element at an index below \<^verbatim>\<open>len(seq)\<close>; \<open>draw\<close> is the generator's number.
\<close>

definition random_choice :: "nat \<Rightarrow> 'a list \<Rightarrow> exn + 'a" where
  "random_choice draw seq =
     (if seq = [] then Inl IndexError else Inr (seq ! (draw mod length seq)))"

definition startswith :: "string \<Rightarrow> string \<Rightarrow> bool" where
  "startswith s p = (take (length p) s = p)"

text \<open>A proxy mapping is a dict of at most two keys, kept as an association list.\<close>

definition get_random_proxy :: "ProxyManager \<Rightarrow> nat \<Rightarrow> exn + (string \<times> string) list" where
  "get_random_proxy self draw =
     (if proxies self = [] then Inr []
      else case random_choice draw (proxies self) of
             Inl e \<Rightarrow> Inl e
           | Inr proxy \<Rightarrow>
               if startswith proxy ''socks''
               then Inr [(''http'', proxy), (''https'', proxy)]
               else Inr [(''http'', proxy), (''https'', proxy)])"

section \<open>Fetch engine (class \<^verbatim>\<open>AdvancedScraper\<close>)\<close>

record AdvancedScraper =
  proxy_manager :: ProxyManager
  max_workers :: nat
  request_delay :: "nat \<times> nat"
  timeout :: nat

definition AdvancedScraper_init :: AdvancedScraper where
  "AdvancedScraper_init =
     \<lparr>proxy_manager = ProxyManager_init, max_workers = 5, request_delay = (1, 3),
      timeout = 30\<rparr>"

text \<open>
  The world outside the process, as far as one retrieval attempt meets it.  Each library
  call either returns or raises:
  \<^item> \<open>ua_random\<close>: \<^verbatim>\<open>self.ua.random\<close> of \<^verbatim>\<open>fake_useragent\<close>;
  \<^item> \<open>draw\<close>: the number behind \<^verbatim>\<open>random.choice\<close>;
  \<^item> \<open>requests_get\<close>: \<^verbatim>\<open>session.get(url, headers=..., proxies=..., timeout=...)\<close>, which
    raises on a refused connection, a DNS or TLS failure and an expired timeout;
  \<^item> \<open>cloudscraper_get\<close>: \<^verbatim>\<open>cloudscraper.create_scraper().get(url, timeout=...)\<close>;
  \<^item> \<open>webdriver_Chrome\<close>: \<^verbatim>\<open>webdriver.Chrome(options=options)\<close>, giving a driver whose
    \<^verbatim>\<open>get\<close>, \<^verbatim>\<open>WebDriverWait(...).until(...)\<close>, \<^verbatim>\<open>page_source\<close> and \<^verbatim>\<open>quit\<close> are its fields.
  The pauses of \<^verbatim>\<open>_delay\<close> and \<^verbatim>\<open>time.sleep(2)\<close> take time and change no value.
  \<open>resp_text\<close> is \<^verbatim>\<open>response.text\<close>.
\<close>

record Response =
  status_code :: nat
  resp_text :: string

record driver =
  driver_get :: "string \<Rightarrow> exn + unit"
  wait_until_body :: "exn + unit"
  page_source :: "exn + string"
  quit :: "exn + unit"

record world =
  ua_random :: "exn + string"
  draw :: nat
  requests_get :: "string \<Rightarrow> (string \<times> string) list \<Rightarrow> (string \<times> string) list \<Rightarrow> exn + Response"
  cloudscraper_get :: "string \<Rightarrow> exn + Response"
  webdriver_Chrome :: "string list \<Rightarrow> exn + driver"

definition get_headers :: "world \<Rightarrow> exn + (string \<times> string) list" where
  "get_headers w =
     (case ua_random w of
        Inl e \<Rightarrow> Inl e
      | Inr ua \<Rightarrow>
          Inr [(''User-Agent'', ua),
               (''Accept'',
                ''text/html,application/xhtml+xml,application/xml;q=0.9,image/webp,*/*;q=0.8''),
               (''Accept-Language'', ''en-US,en;q=0.5''),
               (''Accept-Encoding'', ''gzip, deflate''),
               (''Connection'', ''keep-alive''),
               (''Upgrade-Insecure-Requests'', ''1''),
               (''Cache-Control'', ''max-age=0'')])"

text \<open>\<^verbatim>\<open>response.raise_for_status()\<close>: \<^verbatim>\<open>HTTPError\<close> for a status from 400 to 599.\<close>

definition raise_for_status :: "Response \<Rightarrow> exn + unit" where
  "raise_for_status response =
     (if 400 \<le> status_code response \<and> status_code response < 600
      then Inl (HTTPError (status_code response)) else Inr ())"

text \<open>The substring test \<^verbatim>\<open>indicator in s\<close>.\<close>

fun str_in :: "string \<Rightarrow> string \<Rightarrow> bool" where
  "str_in indicator [] = (indicator = [])"
| "str_in indicator (c # cs) = (startswith (c # cs) indicator \<or> str_in indicator cs)"

definition block_indicators :: "string list" where
  "block_indicators = [''captcha'', ''cloudflare'', ''access denied'']"

definition block_detected :: "string \<Rightarrow> bool" where
  "block_detected body = list_ex (\<lambda>indicator. str_in indicator (lower body)) block_indicators"

text \<open>
  \<^verbatim>\<open>scrape_with_requests\<close>: the body of the \<^verbatim>\<open>try\<close>, then the handler
  \<^verbatim>\<open>except Exception: return None\<close>.
\<close>

definition requests_try :: "AdvancedScraper \<Rightarrow> world \<Rightarrow> string \<Rightarrow> bool \<Rightarrow> exn + string option" where
  "requests_try self w u use_proxy =
     (case get_headers w of
        Inl e \<Rightarrow> Inl e
      | Inr headers \<Rightarrow>
          (case (if use_proxy then get_random_proxy (proxy_manager self) (draw w) else Inr []) of
             Inl e \<Rightarrow> Inl e
           | Inr prx \<Rightarrow>
               (case requests_get w u headers prx of
                  Inl e \<Rightarrow> Inl e
                | Inr response \<Rightarrow>
                    (case raise_for_status response of
                       Inl e \<Rightarrow> Inl e
                     | Inr _ \<Rightarrow>
                         if block_detected (resp_text response) then Inr None
                         else Inr (Some (resp_text response))))))"

definition scrape_with_requests ::
    "AdvancedScraper \<Rightarrow> world \<Rightarrow> string \<Rightarrow> bool \<Rightarrow> exn + string option" where
  "scrape_with_requests self w u use_proxy =
     (case requests_try self w u use_proxy of Inl e \<Rightarrow> Inr None | Inr r \<Rightarrow> Inr r)"

text \<open>
  \<^verbatim>\<open>scrape_with_cloudscraper\<close>: no \<^verbatim>\<open>raise_for_status\<close> and no scan of the text.
\<close>

definition scrape_with_cloudscraper :: "AdvancedScraper \<Rightarrow> world \<Rightarrow> string \<Rightarrow> exn + string option" where
  "scrape_with_cloudscraper self w u =
     (case cloudscraper_get w u of
        Inl e \<Rightarrow> Inr None
      | Inr response \<Rightarrow> Inr (Some (resp_text response)))"

text \<open>
  \<^verbatim>\<open>scrape_with_selenium\<close>.  \<open>selenium_try\<close> is the \<^verbatim>\<open>try\<close> with its handler: it gives the
  value of the local \<^verbatim>\<open>driver\<close> (\<open>None\<close> while \<^verbatim>\<open>webdriver.Chrome\<close> has not returned) and
  the value to return.  The \<^verbatim>\<open>finally\<close> clause then calls \<^verbatim>\<open>driver.quit()\<close> outside any
  handler: an exception of \<^verbatim>\<open>quit\<close> replaces the return value.
\<close>

definition chrome_options :: "string \<Rightarrow> (string \<times> string) list \<Rightarrow> string list" where
  "chrome_options ua prx =
     [''--headless'', ''--no-sandbox'', ''--disable-dev-shm-usage'', ''user-agent='' @ ua]
     @ (case map_of prx ''http'' of
          Some p \<Rightarrow> (if prx \<noteq> [] then [''--proxy-server='' @ p] else [])
        | None \<Rightarrow> [])"

definition selenium_try ::
    "AdvancedScraper \<Rightarrow> world \<Rightarrow> string \<Rightarrow> driver option \<times> string option" where
  "selenium_try self w u =
     (case ua_random w of
        Inl e \<Rightarrow> (None, None)
      | Inr ua \<Rightarrow>
          (case get_random_proxy (proxy_manager self) (draw w) of
             Inl e \<Rightarrow> (None, None)
           | Inr prx \<Rightarrow>
               (case webdriver_Chrome w (chrome_options ua prx) of
                  Inl e \<Rightarrow> (None, None)
                | Inr d \<Rightarrow>
                    (case driver_get d u of
                       Inl e \<Rightarrow> (Some d, None)
                     | Inr _ \<Rightarrow>
                         (case wait_until_body d of
                            Inl e \<Rightarrow> (Some d, None)
                          | Inr _ \<Rightarrow>
                              (case page_source d of
                                 Inl e \<Rightarrow> (Some d, None)
                               | Inr src \<Rightarrow> (Some d, Some src)))))))"

definition scrape_with_selenium :: "AdvancedScraper \<Rightarrow> world \<Rightarrow> string \<Rightarrow> exn + string option" where
  "scrape_with_selenium self w u =
     (case selenium_try self w u of
        (None, r) \<Rightarrow> Inr r
      | (Some d, r) \<Rightarrow> (case quit d of Inl e \<Rightarrow> Inl e | Inr _ \<Rightarrow> Inr r))"

section \<open>An extraction job (class \<^verbatim>\<open>PokiScraper\<close>)\<close>

text \<open>
  The markup library and \<^verbatim>\<open>urllib\<close> are not code of this repository; they are parameters.
  \<open>find_all html tag\<close> is the list of \<^verbatim>\<open>str(tag)\<close> for the tags of that name in the page,
  \<open>game_elements html\<close> the three \<^verbatim>\<open>find_all\<close> searches of \<^verbatim>\<open>PokiScraper.scrape\<close> appended.
  An element is what the three \<^verbatim>\<open>element.find\<close> calls of the loop body see in it: the
  stripped text of its title node, the \<^verbatim>\<open>href\<close> of its first link and the \<^verbatim>\<open>src\<close> of its
  first image, each absent when \<^verbatim>\<open>find\<close> gives \<^verbatim>\<open>None\<close>.
\<close>

record element =
  title_text :: "string option"
  link_href :: "string option"
  img_src :: "string option"

record markup =
  urljoin :: "string \<Rightarrow> string \<Rightarrow> string"
  find_all :: "string \<Rightarrow> string \<Rightarrow> string list"
  game_elements :: "string \<Rightarrow> element list"

definition extract_iframes :: "markup \<Rightarrow> string \<Rightarrow> string list" where
  "extract_iframes m html = find_all m html ''iframe'' @ find_all m html ''embed''"

text \<open>\<^verbatim>\<open>s.rstrip('/')\<close> and \<^verbatim>\<open>s.split('/')[-1]\<close>, the part after the last slash.\<close>

definition rstrip_slash :: "string \<Rightarrow> string" where
  "rstrip_slash s = rev (dropWhile (\<lambda>c. c = CHR ''/'') (rev s))"

definition last_segment :: "string \<Rightarrow> string" where
  "last_segment s = rev (takeWhile (\<lambda>c. c \<noteq> CHR ''/'') (rev s))"

definition iframe_for :: "string \<Rightarrow> string" where
  "iframe_for src =
     ''<iframe src=\"'' @ src @
     ''\" width=\"100%\" height=\"100%\" frameborder=\"0\" allowfullscreen></iframe>''"

definition poki_base_url :: string where
  "poki_base_url = ''https://poki.com''"

definition poki_name :: string where
  "poki_name = ''Poki''"

text \<open>
  The body of the element loop up to the test \<^verbatim>\<open>if game.name and game.url\<close>: the record is
  created with an empty name and an empty url, then \<^verbatim>\<open>game.name\<close>, \<^verbatim>\<open>game.url\<close> and
  \<^verbatim>\<open>game.image_url\<close> are assigned.
\<close>

definition poki_fill :: "markup \<Rightarrow> element \<Rightarrow> Game \<Rightarrow> Game" where
  "poki_fill m elem game0 =
     (let game1 = (case title_text elem of Some t \<Rightarrow> game0\<lparr>name := t\<rparr> | None \<Rightarrow> game0);
          game2 = (case link_href elem of
                     Some h \<Rightarrow> game1\<lparr>url := urljoin m poki_base_url h\<rparr>
                   | None \<Rightarrow> game1)
      in case img_src elem of
           Some i \<Rightarrow> game2\<lparr>image_url := urljoin m poki_base_url i\<rparr>
         | None \<Rightarrow> game2)"

text \<open>
  The rest of the body: the game page is fetched, \<^verbatim>\<open>game.iframe_code\<close> is assigned when the
  page came back, and the record is appended to \<^verbatim>\<open>self.games\<close>.  An exception anywhere in
  the body goes to \<^verbatim>\<open>except Exception: continue\<close>, which leaves \<^verbatim>\<open>self.games\<close> as it is.
\<close>

definition poki_element ::
    "markup \<Rightarrow> AdvancedScraper \<Rightarrow> world \<Rightarrow> string \<Rightarrow> element \<Rightarrow> Game list \<Rightarrow> Game list" where
  "poki_element m sc w now elem self_games =
     (let game = poki_fill m elem (new_Game now [] [] poki_name) in
      if name game \<noteq> [] \<and> url game \<noteq> [] then
        (case scrape_with_requests sc w (url game) True of
           Inl e \<Rightarrow> self_games
         | Inr None \<Rightarrow> self_games @ [game]
         | Inr (Some game_html) \<Rightarrow>
             if game_html = [] then self_games @ [game]
             else
               (let iframes = extract_iframes m game_html in
                if iframes \<noteq> [] then self_games @ [game\<lparr>iframe_code := hd iframes\<rparr>]
                else
                  (let game_slug = last_segment (rstrip_slash (url game));
                       embed_src = ''https://poki.com/embed/'' @ game_slug
                   in self_games @ [game\<lparr>iframe_code := iframe_for embed_src\<rparr>])))
      else self_games)"

text \<open>The loop \<^verbatim>\<open>for element in game_elements[:100]\<close>; \<open>clock i\<close> is the clock reading at
  the creation of the record of element \<open>i\<close>.\<close>

fun poki_loop ::
    "markup \<Rightarrow> AdvancedScraper \<Rightarrow> world \<Rightarrow> (nat \<Rightarrow> string) \<Rightarrow> nat \<Rightarrow> element list \<Rightarrow>
     Game list \<Rightarrow> Game list" where
  "poki_loop m sc w clock i [] self_games = self_games"
| "poki_loop m sc w clock i (elem # elems) self_games =
     poki_loop m sc w clock (Suc i) elems (poki_element m sc w (clock i) elem self_games)"

text \<open>
  \<^verbatim>\<open>PokiScraper.scrape\<close>: the value returned and \<^verbatim>\<open>self.games\<close> afterwards.
\<close>

definition PokiScraper_scrape ::
    "markup \<Rightarrow> AdvancedScraper \<Rightarrow> world \<Rightarrow> (nat \<Rightarrow> string) \<Rightarrow> Game list \<Rightarrow>
     Game list \<times> Game list" where
  "PokiScraper_scrape m sc w clock self_games =
     (case scrape_with_cloudscraper sc w poki_base_url of
        Inl e \<Rightarrow> (self_games, self_games)
      | Inr None \<Rightarrow> ([], self_games)
      | Inr (Some html) \<Rightarrow>
          if html = [] then ([], self_games)
          else
            (let self_games' =
                   poki_loop m sc w clock 0 (take 100 (game_elements m html)) self_games
             in (self_games', self_games')))"

section \<open>Vocabulary of the statements and concrete inputs\<close>

text \<open>
  The items a scraper hands to the orchestrator: the list \<^verbatim>\<open>future.result\<close> returned,
  nothing when it raised.
\<close>

definition returned_games :: "WebsiteScraper \<Rightarrow> Game list" where
  "returned_games scraper = (case future_result scraper of Inr gs \<Rightarrow> gs | Inl e \<Rightarrow> [])"

definition job :: "string \<Rightarrow> Game list \<Rightarrow> exn + Game list \<Rightarrow> WebsiteScraper" where
  "job n acc res =
     \<lparr>base_url = ''http://x'', scraper_name = n, games = acc, future_result = res\<rparr>"

text \<open>The two jobs of the end-to-end example: \<open>A\<close> yields one item, \<open>B\<close> two.\<close>

definition job_A :: WebsiteScraper where
  "job_A = job ''A'' [new_Game ''t0'' ''Foo'' ''http://x/1'' ''A'']
                    (Inr [new_Game ''t0'' ''Foo'' ''http://x/1'' ''A''])"

definition job_B :: WebsiteScraper where
  "job_B = job ''B'' [new_Game ''t1'' ''foo'' ''http://x/1'' ''B'',
                      new_Game ''t2'' ''Bar'' ''http://x/2'' ''B'']
                    (Inr [new_Game ''t1'' ''foo'' ''http://x/1'' ''B'',
                          new_Game ''t2'' ''Bar'' ''http://x/2'' ''B''])"

text \<open>A job that had appended three items when \<^verbatim>\<open>future.result\<close> raised \<open>e\<close>.\<close>

definition three_items :: "Game list" where
  "three_items = [new_Game ''t3'' ''One'' ''http://y/1'' ''F'',
                  new_Game ''t4'' ''Two'' ''http://y/2'' ''F'',
                  new_Game ''t5'' ''Three'' ''http://y/3'' ''F'']"

definition job_failing :: "exn \<Rightarrow> WebsiteScraper" where
  "job_failing e = job ''F'' three_items (Inl e)"

text \<open>
  A world in which every plain and every challenge-solving request gets \<open>reply\<close>, the
  browser starts, loads the page and shows \<open>rendered\<close>, and \<^verbatim>\<open>driver.quit()\<close> does
  \<open>quit_result\<close>.
\<close>

definition world_serving :: "exn + Response \<Rightarrow> exn + string \<Rightarrow> exn + unit \<Rightarrow> world" where
  "world_serving reply rendered quit_result =
     \<lparr>ua_random = Inr ''Mozilla/5.0'', draw = 0,
      requests_get = (\<lambda>u headers prx. reply),
      cloudscraper_get = (\<lambda>u. reply),
      webdriver_Chrome = (\<lambda>options.
        Inr \<lparr>driver_get = (\<lambda>u. Inr ()), wait_until_body = Inr (),
             page_source = rendered, quit = quit_result\<rparr>)\<rparr>"

definition ok_200 :: "string \<Rightarrow> exn + Response" where
  "ok_200 body = Inr \<lparr>status_code = 200, resp_text = body\<rparr>"

definition captcha_page :: string where
  "captcha_page = ''<html>Please solve the CAPTCHA</html>''"

definition plain_page :: string where
  "plain_page = ''<html><body>game</body></html>''"

text \<open>One page element with a title and a link, and a markup library that joins urls by
  concatenation and finds no \<^verbatim>\<open>iframe\<close> or \<^verbatim>\<open>embed\<close> tag.\<close>

definition elem_foo :: element where
  "elem_foo = \<lparr>title_text = Some ''Foo'', link_href = Some ''/g/foo'', img_src = None\<rparr>"

definition markup_concat :: markup where
  "markup_concat =
     \<lparr>urljoin = (\<lambda>base href. base @ href), find_all = (\<lambda>html tag. []),
      game_elements = (\<lambda>html. [elem_foo])\<rparr>"

section \<open>Evaluation rules\<close>

lemmas string_eval = lower_def lower_char_def char_of_def bit_Suc_0_iff startswith_def

lemmas game_eval = new_Game_def post_init_def game_id_def

lemmas orchestrator_eval =
  MainGameScraper_init_def run_scrapers_parallel_def deduplicate_games_def save_results_def
  print_stats_def true_div_def job_def job_A_def job_B_def job_failing_def three_items_def

lemmas fetch_eval =
  scrape_with_requests_def requests_try_def get_headers_def get_random_proxy_def
  random_choice_def raise_for_status_def block_detected_def block_indicators_def
  scrape_with_cloudscraper_def scrape_with_selenium_def selenium_try_def chrome_options_def
  AdvancedScraper_init_def ProxyManager_init_def load_proxies_def
  world_serving_def ok_200_def captcha_page_def plain_page_def

lemmas poki_eval =
  poki_element_def poki_fill_def poki_name_def poki_base_url_def extract_iframes_def
  rstrip_slash_def last_segment_def iframe_for_def elem_foo_def markup_concat_def

section \<open>Properties of deduplication\<close>

lemma dedupe_loop_acc:
  "dedupe_loop gs seen acc = acc @ dedupe_loop gs seen []"
proof (induction gs arbitrary: seen acc)
  case Nil
  show ?case by simp
next
  case (Cons g gs)
  show ?case
  proof (cases "game_id g \<in> seen")
    case True
    then show ?thesis using Cons.IH [of seen acc] by simp
  next
    case False
    then show ?thesis
      using Cons.IH [of "insert (game_id g) seen" "acc @ [g]"]
            Cons.IH [of "insert (game_id g) seen" "[g]"]
      by simp
  qed
qed

lemma dedupe_loop_keys:
  "distinct (map game_id (dedupe_loop gs seen [])) \<and>
   set (map game_id (dedupe_loop gs seen [])) \<inter> seen = {}"
proof (induction gs arbitrary: seen)
  case Nil
  show ?case by simp
next
  case (Cons g gs)
  show ?case
  proof (cases "game_id g \<in> seen")
    case True
    then show ?thesis using Cons.IH [of seen] by simp
  next
    case False
    have step: "dedupe_loop (g # gs) seen [] = g # dedupe_loop gs (insert (game_id g) seen) []"
      using False dedupe_loop_acc [of gs "insert (game_id g) seen" "[g]"] by simp
    show ?thesis
      unfolding step using False Cons.IH [of "insert (game_id g) seen"] by auto
  qed
qed

lemma dedupe_loop_fixed:
  "distinct (map game_id gs) \<Longrightarrow> set (map game_id gs) \<inter> seen = {} \<Longrightarrow>
   dedupe_loop gs seen [] = gs"
proof (induction gs arbitrary: seen)
  case Nil
  show ?case by simp
next
  case (Cons g gs)
  from Cons.prems have notin: "game_id g \<notin> seen" by auto
  have step: "dedupe_loop (g # gs) seen [] = g # dedupe_loop gs (insert (game_id g) seen) []"
    using notin dedupe_loop_acc [of gs "insert (game_id g) seen" "[g]"] by simp
  have "dedupe_loop gs (insert (game_id g) seen) [] = gs"
    using Cons.prems by (intro Cons.IH) auto
  then show ?case unfolding step by simp
qed

text \<open>
  Claim C6.  Deduplication is idempotent: running \<^verbatim>\<open>deduplicate_games\<close> on the state that
  \<^verbatim>\<open>deduplicate_games\<close> produced changes nothing.
\<close>

theorem deduplicate_games_idempotent:
  "deduplicate_games (deduplicate_games self) = deduplicate_games self"
proof -
  let ?u = "dedupe_loop (all_games self) {} []"
  have "distinct (map game_id ?u)" and "set (map game_id ?u) \<inter> {} = {}"
    using dedupe_loop_keys [of "all_games self" "{}"] by simp_all
  then have "dedupe_loop ?u {} [] = ?u" by (rule dedupe_loop_fixed)
  then show ?thesis by (simp add: deduplicate_games_def)
qed

lemma dedupe_loop_subset: "set (dedupe_loop gs seen acc) \<subseteq> set acc \<union> set gs"
proof (induction gs arbitrary: seen acc)
  case Nil
  show ?case by simp
next
  case (Cons a gs)
  show ?case
    using Cons.IH [of "insert (game_id a) seen" "acc @ [a]"] Cons.IH [of seen acc] by auto
qed

lemma same_name_and_url_same_id:
  "lower (name g) = lower (name h) \<Longrightarrow> url g = url h \<Longrightarrow> game_id g = game_id h"
  by (simp add: game_id_def)

text \<open>An accented capital is lower-cased as well: two items named by the code points 201
  and 233 (capital and small e with acute accent), with one url, are one item.\<close>

lemma dedupe_accented_capital:
  "lower [char_of (201 :: nat)] = [char_of (233 :: nat)] \<and>
   lower [char_of (215 :: nat), char_of (223 :: nat)] = [char_of (215 :: nat), char_of (223 :: nat)] \<and>
   dedupe_loop [new_Game ''t0'' [char_of (201 :: nat)] ''http://x/1'' ''A'',
                new_Game ''t1'' [char_of (233 :: nat)] ''http://x/1'' ''B''] {} []
     = [new_Game ''t0'' [char_of (201 :: nat)] ''http://x/1'' ''A'']"
  by (simp add: game_eval string_eval)

text \<open>The end-to-end example of the specification: job \<open>A\<close> then job \<open>B\<close> leave \<open>Foo\<close> of
  \<open>A\<close> and \<open>Bar\<close> of \<open>B\<close>.\<close>

lemma dedupe_end_to_end_example:
  "all_games (deduplicate_games (run_scrapers_parallel (MainGameScraper_init [job_A, job_B])))
   = [new_Game ''t0'' ''Foo'' ''http://x/1'' ''A'', new_Game ''t2'' ''Bar'' ''http://x/2'' ''B'']"
  by (simp add: orchestrator_eval game_eval string_eval)

text \<open>
  Claim C1.  Deduplication collapses two items exactly when their lower-cased names and
  their urls are both equal.  The identifier joins the two parts with an underscore, so
  two items with different names and different urls can share it: here the second item,
  whose name and url both differ from the first item's, is dropped.
\<close>

theorem dedupe_identifier_collision:
  "lower ''Foo'' \<noteq> lower ''Foo_http://x/1'' \<and>
   ''http://x/1_http://x/2'' \<noteq> ''http://x/2'' \<and>
   all_games (deduplicate_games
     \<lparr>scrapers = [],
      all_games = [new_Game ''t0'' ''Foo'' ''http://x/1_http://x/2'' ''A'',
                   new_Game ''t1'' ''Foo_http://x/1'' ''http://x/2'' ''B''],
      scraping_stats = []\<rparr>)
   = [new_Game ''t0'' ''Foo'' ''http://x/1_http://x/2'' ''A'']"
  by (simp add: deduplicate_games_def game_eval string_eval)

section \<open>Properties of the orchestrator\<close>

lemma collect_all_games:
  "all_games (collect_futures js self) = all_games self @ concat (map returned_games js)"
  by (induction js arbitrary: self) (auto simp: returned_games_def split: sum.splits)

lemma collect_scrapers: "scrapers (collect_futures js self) = scrapers self"
  by (induction js arbitrary: self) (auto split: sum.splits)

lemma collect_stats_other:
  "n \<notin> scraper_name ` set js \<Longrightarrow>
   map_of (scraping_stats (collect_futures js self)) n = map_of (scraping_stats self) n"
  by (induction js arbitrary: self) (auto simp: update_conv' split: sum.splits)

lemma collect_stats_job:
  "distinct (map scraper_name js) \<Longrightarrow> j \<in> set js \<Longrightarrow>
   map_of (scraping_stats (collect_futures js self)) (scraper_name j)
     = Some (length (returned_games j))"
proof (induction js arbitrary: self)
  case Nil
  then show ?case by simp
next
  case (Cons a js)
  show ?case
  proof (cases "j = a")
    case True
    have "scraper_name a \<notin> scraper_name ` set js" using Cons.prems(1) by auto
    then show ?thesis using True
      by (simp add: collect_stats_other update_conv' returned_games_def split: sum.splits)
  next
    case False
    then show ?thesis using Cons by auto
  qed
qed

text \<open>
  Claim C2, as stated, fails: a job whose \<^verbatim>\<open>future.result\<close> raised, or timed out, after it
  had appended three items contributes none of them to the merged result; only the
  sibling's items are there, and its count is \<open>0\<close>.
\<close>

theorem failed_job_items_dropped:
  "games (job_failing (OtherException ''boom'')) = three_items \<and>
   all_games (run_scrapers_parallel
       (MainGameScraper_init [job_failing (OtherException ''boom''), job_B]))
     = returned_games job_B \<and>
   all_games (run_scrapers_parallel (MainGameScraper_init [job_failing TimeoutError, job_B]))
     = returned_games job_B \<and>
   hd three_items \<notin> set (returned_games job_B) \<and>
   scraping_stats (run_scrapers_parallel
       (MainGameScraper_init [job_failing (OtherException ''boom''), job_B]))
     = [(''F'', 0), (''B'', 2)]"
  by (simp add: orchestrator_eval returned_games_def game_eval)

text \<open>
  Claim C2, amended.  For every registry with pairwise distinct names, the merged result
  after the run is what was there before followed by the lists of the jobs that returned,
  in registration order; a job that raised or timed out contributes no item and is
  recorded with the count \<open>0\<close>; the registry is untouched and the run itself always
  completes, whatever any single job did.
\<close>

theorem run_keeps_returned_items:
  assumes "distinct (map scraper_name (scrapers self))"
  shows "all_games (run_scrapers_parallel self)
           = all_games self @ concat (map returned_games (scrapers self)) \<and>
         scrapers (run_scrapers_parallel self) = scrapers self \<and>
         (\<forall>j \<in> set (scrapers self). \<forall>e. future_result j = Inl e \<longrightarrow>
            returned_games j = [] \<and>
            map_of (scraping_stats (run_scrapers_parallel self)) (scraper_name j) = Some 0)"
proof (intro conjI ballI allI impI)
  show "all_games (run_scrapers_parallel self)
          = all_games self @ concat (map returned_games (scrapers self))"
    by (simp add: run_scrapers_parallel_def collect_all_games)
  show "scrapers (run_scrapers_parallel self) = scrapers self"
    by (simp add: run_scrapers_parallel_def collect_scrapers)
next
  fix j e
  assume j: "j \<in> set (scrapers self)" and e: "future_result j = Inl e"
  show "returned_games j = []" using e by (simp add: returned_games_def)
  then show "map_of (scraping_stats (run_scrapers_parallel self)) (scraper_name j) = Some 0"
    using collect_stats_job [OF assms j, of self] by (simp add: run_scrapers_parallel_def)
qed

theorem run_keeps_returned_items_witness:
  "all_games (run_scrapers_parallel (MainGameScraper_init [job_failing TimeoutError, job_B]))
     = returned_games job_B \<and>
   map_of (scraping_stats
       (run_scrapers_parallel (MainGameScraper_init [job_failing TimeoutError, job_B]))) ''F''
     = Some 0"
proof -
  let ?s = "MainGameScraper_init [job_failing TimeoutError, job_B]"
  have d: "distinct (map scraper_name (scrapers ?s))"
    by (simp add: orchestrator_eval)
  show ?thesis
    using run_keeps_returned_items [OF d]
    by (simp add: orchestrator_eval returned_games_def)
qed

text \<open>
  Claim C9, as stated, fails: the statistics hold one number per source, and that number
  is the same \<open>0\<close> for a job that failed, a job that timed out and a job that completed
  with no item, so neither an outcome nor a duration is recorded.
\<close>

theorem stats_do_not_record_outcome:
  "scraping_stats (run_scrapers_parallel
       (MainGameScraper_init [job ''A'' [] (Inl (OtherException ''boom''))])) = [(''A'', 0)] \<and>
   scraping_stats (run_scrapers_parallel
       (MainGameScraper_init [job ''A'' [] (Inl TimeoutError)])) = [(''A'', 0)] \<and>
   scraping_stats (run_scrapers_parallel
       (MainGameScraper_init [job ''A'' [] (Inr [])])) = [(''A'', 0)]"
  by (simp add: orchestrator_eval)

text \<open>
  Claim C9, amended.  For every registry with pairwise distinct names, the statistics
  after the run map each job name to the number of items the job returned (\<open>0\<close> when it
  raised or timed out) and leave every other name as it was; this mapping from source
  name to count is what \<^verbatim>\<open>save_results\<close> writes as \<^verbatim>\<open>sources\<close>.
\<close>

theorem stats_record_returned_counts:
  assumes "distinct (map scraper_name (scrapers self))"
  shows "(\<forall>j \<in> set (scrapers self).
            map_of (scraping_stats (run_scrapers_parallel self)) (scraper_name j)
              = Some (length (returned_games j))) \<and>
         (\<forall>n. n \<notin> scraper_name ` set (scrapers self) \<longrightarrow>
            map_of (scraping_stats (run_scrapers_parallel self)) n
              = map_of (scraping_stats self) n) \<and>
         (\<forall>f. save_results True timestamp now (run_scrapers_parallel self) = Inr f \<longrightarrow>
            sources (metadata (json_document f))
              = scraping_stats (run_scrapers_parallel self))"
proof (intro conjI ballI allI impI)
  fix j
  assume "j \<in> set (scrapers self)"
  then show "map_of (scraping_stats (run_scrapers_parallel self)) (scraper_name j)
               = Some (length (returned_games j))"
    using collect_stats_job [OF assms, of j self] by (simp add: run_scrapers_parallel_def)
next
  fix n
  assume "n \<notin> scraper_name ` set (scrapers self)"
  then show "map_of (scraping_stats (run_scrapers_parallel self)) n
               = map_of (scraping_stats self) n"
    by (simp add: run_scrapers_parallel_def collect_stats_other)
next
  fix f
  assume "save_results True timestamp now (run_scrapers_parallel self) = Inr f"
  then show "sources (metadata (json_document f)) = scraping_stats (run_scrapers_parallel self)"
    by (auto simp: save_results_def Let_def)
qed

theorem stats_record_returned_counts_witness:
  "map_of (scraping_stats (run_scrapers_parallel (MainGameScraper_init [job_A, job_B]))) ''A''
     = Some 1 \<and>
   map_of (scraping_stats (run_scrapers_parallel (MainGameScraper_init [job_A, job_B]))) ''B''
     = Some 2"
proof -
  let ?s = "MainGameScraper_init [job_A, job_B]"
  have d: "distinct (map scraper_name (scrapers ?s))"
    by (simp add: orchestrator_eval)
  show ?thesis
    using stats_record_returned_counts [OF d]
    by (simp add: orchestrator_eval returned_games_def)
qed

text \<open>
  Claim C10.  Deduplication changes the item collection only: the statistics (and the
  registry) are the same before and after, so the counts are those taken when the jobs
  were collected, and their sum can exceed \<^verbatim>\<open>total_games\<close> of the saved document: in the
  end-to-end example the counts add up to \<open>3\<close> while \<^verbatim>\<open>total_games\<close> is \<open>2\<close>.
\<close>

theorem dedupe_leaves_stats:
  "scraping_stats (deduplicate_games self) = scraping_stats self \<and>
   scrapers (deduplicate_games self) = scrapers self \<and>
   (case save_results True ''20240101_000000'' ''2024-01-01T00:00:00''
           (deduplicate_games (run_scrapers_parallel (MainGameScraper_init [job_A, job_B]))) of
      Inl e \<Rightarrow> False
    | Inr f \<Rightarrow>
        total_games (metadata (json_document f)) = 2 \<and>
        sum_list (map snd (sources (metadata (json_document f)))) = 3)"
  by (simp add: orchestrator_eval game_eval string_eval)

text \<open>
  Claim C7.  A run always ends with its statistics report, also when nothing was
  collected.  \<^verbatim>\<open>print_stats\<close> divides by the number of items: after a run in which one job
  timed out and the other returned nothing it raises \<^verbatim>\<open>ZeroDivisionError\<close> and logs no
  report.
\<close>

theorem print_stats_empty_run_raises:
  "all_games (deduplicate_games (run_scrapers_parallel
       (MainGameScraper_init [job ''A'' [] (Inl TimeoutError), job ''B'' [] (Inr [])]))) = [] \<and>
   print_stats (deduplicate_games (run_scrapers_parallel
       (MainGameScraper_init [job ''A'' [] (Inl TimeoutError), job ''B'' [] (Inr [])])))
     = Inl ZeroDivisionError"
  by (simp add: orchestrator_eval)

section \<open>Properties of the identity pool\<close>

text \<open>
  Claim C5.  Selecting a proxy never raises, whatever the pool holds, and on the empty
  pool it returns the empty proxy mapping, the direct identity.
\<close>

theorem get_random_proxy_never_raises:
  "(\<exists>d. get_random_proxy self r = Inr d) \<and>
   (proxies self = [] \<longrightarrow> get_random_proxy self r = Inr [])"
  by (simp add: get_random_proxy_def random_choice_def)

theorem get_random_proxy_never_raises_witness:
  "get_random_proxy \<lparr>proxies = [], current_proxy_idx = 0\<rparr> 7 = Inr [] \<and>
   get_random_proxy ProxyManager_init 7
     = Inr [(''http'', ''http://138.197.157.44:8080''), (''https'', ''http://138.197.157.44:8080'')]"
  using get_random_proxy_never_raises [of "\<lparr>proxies = [], current_proxy_idx = 0\<rparr>" 7]
  by (simp add: get_random_proxy_def random_choice_def ProxyManager_init_def load_proxies_def
      startswith_def)

section \<open>Properties of the fetch engine\<close>

lemma str_in_append: "str_in indicator (pre @ indicator @ post)"
  by (induction pre) (auto simp: startswith_def, (cases indicator; cases post; simp add: startswith_def)+)

text \<open>The plain strategy never hands out a page whose text holds an indicator.\<close>

lemma requests_withholds_blocked_page:
  "scrape_with_requests self w u use_proxy = Inr (Some body) \<Longrightarrow> \<not> block_detected body"
  by (auto simp: scrape_with_requests_def requests_try_def split: sum.splits if_splits)

lemma captcha_in_any_case_detected:
  "lower body = pre @ ''captcha'' @ post \<Longrightarrow> block_detected body"
  using str_in_append [of "''captcha''" pre post]
  by (simp add: block_detected_def block_indicators_def)

text \<open>
  Claim C3.  Under every strategy, content with a block indicator is never returned as
  usable content.  The plain strategy scans the text and returns \<^verbatim>\<open>None\<close>; the
  challenge-solving client and the scripted browser do not scan: on the same page,
  served with status 200, both return the page to the caller.
\<close>

theorem block_page_returned_as_content:
  "block_detected captcha_page \<and>
   scrape_with_requests AdvancedScraper_init
       (world_serving (ok_200 captcha_page) (Inr captcha_page) (Inr ())) ''https://poki.com'' True
     = Inr None \<and>
   scrape_with_cloudscraper AdvancedScraper_init
       (world_serving (ok_200 captcha_page) (Inr captcha_page) (Inr ())) ''https://poki.com''
     = Inr (Some captcha_page) \<and>
   scrape_with_selenium AdvancedScraper_init
       (world_serving (ok_200 captcha_page) (Inr captcha_page) (Inr ())) ''https://poki.com''
     = Inr (Some captcha_page)"
  by (simp add: fetch_eval string_eval)















text \<open>The \<^verbatim>\<open>finally\<close> clause is outside the handler: an exception of \<^verbatim>\<open>driver.quit()\<close>
  leaves \<^verbatim>\<open>scrape_with_selenium\<close>.\<close>

lemma selenium_quit_exception_escapes:
  "scrape_with_selenium AdvancedScraper_init
       (world_serving (ok_200 plain_page) (Inr plain_page) (Inl WebDriverException))
       ''https://poki.com''
     = Inl WebDriverException"
  by (simp add: fetch_eval string_eval)




section \<open>Properties of item records\<close>

text \<open>
  Claim C8, as stated, fails: a record is not fixed at its creation.  \<^verbatim>\<open>PokiScraper.scrape\<close>
  creates the record with an empty name, url and embed code and assigns the three fields
  afterwards; the record it appends differs from the record it created.
\<close>

theorem poki_record_assigned_after_creation:
  "name (new_Game ''t0'' [] [] poki_name) = [] \<and>
   url (new_Game ''t0'' [] [] poki_name) = [] \<and>
   iframe_code (new_Game ''t0'' [] [] poki_name) = [] \<and>
   poki_element markup_concat AdvancedScraper_init
       (world_serving (ok_200 plain_page) (Inr plain_page) (Inr ())) ''t0'' elem_foo []
     = [(new_Game ''t0'' [] [] poki_name)
          \<lparr>name := ''Foo'', url := ''https://poki.com/g/foo'',
           iframe_code := iframe_for ''https://poki.com/embed/foo''\<rparr>]"
  by (simp add: poki_eval fetch_eval game_eval string_eval)

lemma poki_scrape_example:
  "PokiScraper_scrape markup_concat AdvancedScraper_init
       (world_serving (ok_200 plain_page) (Inr plain_page) (Inr ())) (\<lambda>i. ''t0'') []
     = ([(new_Game ''t0'' [] [] poki_name)
          \<lparr>name := ''Foo'', url := ''https://poki.com/g/foo'',
           iframe_code := iframe_for ''https://poki.com/embed/foo''\<rparr>],
        [(new_Game ''t0'' [] [] poki_name)
          \<lparr>name := ''Foo'', url := ''https://poki.com/g/foo'',
           iframe_code := iframe_for ''https://poki.com/embed/foo''\<rparr>])"
  by (simp add: PokiScraper_scrape_def poki_eval fetch_eval game_eval string_eval Let_def)

text \<open>
  Claim C8, amended.  A record is built by its job, which creates it and then assigns
  fields before appending it; once a job has returned its list, no field of any record
  changes: every record of the merged and deduplicated collection is, field for field, a
  record that was in the collection before or that a job of the registry returned, and
  the \<^verbatim>\<open>games\<close> array of the saved document is the collection itself.
\<close>

theorem pipeline_keeps_records:
  "(\<forall>g \<in> set (all_games (deduplicate_games (run_scrapers_parallel self))).
      g \<in> set (all_games self) \<or> (\<exists>j \<in> set (scrapers self). g \<in> set (returned_games j))) \<and>
   (save_results True timestamp now self = Inr f \<longrightarrow>
      games_array (json_document f) = all_games self)"
proof (intro conjI ballI impI)
  fix g
  assume "g \<in> set (all_games (deduplicate_games (run_scrapers_parallel self)))"
  then have "g \<in> set (all_games (run_scrapers_parallel self))"
    using dedupe_loop_subset [of "all_games (run_scrapers_parallel self)" "{}" "[]"]
    by (auto simp: deduplicate_games_def)
  then show "g \<in> set (all_games self) \<or> (\<exists>j \<in> set (scrapers self). g \<in> set (returned_games j))"
    by (auto simp: run_scrapers_parallel_def collect_all_games)
next
  assume "save_results True timestamp now self = Inr f"
  then show "games_array (json_document f) = all_games self"
    by (auto simp: save_results_def Let_def)
qed

theorem pipeline_keeps_records_witness:
  "new_Game ''t2'' ''Bar'' ''http://x/2'' ''B''
     \<in> set (all_games (deduplicate_games
              (run_scrapers_parallel (MainGameScraper_init [job_A, job_B])))) \<and>
   new_Game ''t2'' ''Bar'' ''http://x/2'' ''B'' \<in> set (returned_games job_B)"
  using pipeline_keeps_records [of "MainGameScraper_init [job_A, job_B]"]
  by (simp add: orchestrator_eval returned_games_def game_eval string_eval)

end
